theory Spec2Isabelle
  imports Main "HOL-Library.Sublist"
begin

section \<open>Text, numbers and cells\<close>

text \<open>
  A Python \<open>str\<close> is a sequence of Unicode code points, modelled as a list of naturals.
  Isabelle's \<open>char\<close> has exactly the 256 values of Latin-1, so a \<open>string\<close> stands for
  text that is already Latin-1 (literals of the program, printed numbers, the text
  handed to the PDF library).
\<close>

type_synonym ustring = "nat list"

definition u :: "string \<Rightarrow> ustring" where
  "u s = map of_char s"

text \<open>\<open>str(n)\<close> for an integer.\<close>

fun str_nat :: "nat \<Rightarrow> string" where
  "str_nat n = (if n < 10 then [char_of (48 + n)] else str_nat (n div 10) @ [char_of (48 + n mod 10)])"

declare str_nat.simps [simp del]

definition str_int :: "int \<Rightarrow> string" where
  "str_int i = (if i < 0 then CHR ''-'' # str_nat (nat (- i)) else str_nat (nat i))"

text \<open>
  Prices and amounts are Python floats. Their arithmetic and formatting, and a few
  other things the Python runtime and the libraries compute, are not modelled: they
  are parameters, so every theorem below holds for any interpretation of them, IEEE
  doubles included. \<open>'m\<close> is the type of amounts.
\<close>

datatype float_kind = Finite | Infinite | NaN

record 'm py_ops =
  f_of_int :: "int \<Rightarrow> 'm"            \<comment> \<open>\<open>float(n)\<close>\<close>
  f_add :: "'m \<Rightarrow> 'm \<Rightarrow> 'm"          \<comment> \<open>\<open>x + y\<close>\<close>
  f_mul :: "'m \<Rightarrow> 'm \<Rightarrow> 'm"          \<comment> \<open>\<open>x * y\<close>\<close>
  f_kind :: "'m \<Rightarrow> float_kind"       \<comment> \<open>finite, infinite or not a number\<close>
  f_trunc :: "'m \<Rightarrow> int"             \<comment> \<open>\<open>int(x)\<close> for a finite \<open>x\<close>\<close>
  f_shown :: "'m \<Rightarrow> string"          \<comment> \<open>the text the sheet shows for a number cell\<close>
  f_fmt2 :: "'m \<Rightarrow> string"           \<comment> \<open>\<open>f"{x:.2f}"\<close>\<close>
  f_fmt2c :: "'m \<Rightarrow> string"          \<comment> \<open>\<open>f"{x:,.2f}"\<close>\<close>
  py_repr :: "ustring \<Rightarrow> ustring"     \<comment> \<open>\<open>repr(s)\<close> of a string\<close>
  py_int_str :: "ustring \<Rightarrow> int option"  \<comment> \<open>\<open>int(s)\<close> of a string, \<open>None\<close> when it raises\<close>
  gs_dup_msg :: "ustring list \<Rightarrow> ustring"  \<comment> \<open>gspread's message for a title row with repeated titles\<close>
  latin1_msg :: "ustring \<Rightarrow> ustring"  \<comment> \<open>the text of the \<open>UnicodeEncodeError\<close> for a string\<close>

text \<open>
  A worksheet is a list of rows, the title row first; a cell holds what gspread hands
  back for it: an integer, a float, or text that is not a number (the empty cell is
  the empty text).
\<close>

datatype 'm cell = IntCell int | FloatCell 'm | TextCell ustring

type_synonym 'm sheet = "'m cell list list"

definition cell_text :: "'m py_ops \<Rightarrow> 'm cell \<Rightarrow> ustring" where
  "cell_text fo c = (case c of IntCell n \<Rightarrow> u (str_int n) | FloatCell x \<Rightarrow> u (f_shown fo x) | TextCell t \<Rightarrow> t)"

definition cell_at :: "'m cell list \<Rightarrow> nat \<Rightarrow> 'm cell" where
  "cell_at r j = (if j < length r then r ! j else TextCell [])"

definition pad :: "nat \<Rightarrow> 'a \<Rightarrow> 'a list \<Rightarrow> 'a list" where
  "pad n d xs = xs @ replicate (n - length xs) d"

section \<open>Exceptions\<close>

text \<open>
  \<open>StopException\<close> is what \<open>st.stop()\<close> raises, after \<open>st.error\<close> has shown the
  message it carries; it derives from \<open>BaseException\<close>, so \<open>except Exception\<close> lets it
  through. Every other constructor is an \<open>Exception\<close>; \<open>AdapterError\<close> stands for
  whatever a call of gspread raises when it fails (no network, a quota, a missing
  tab).
\<close>

datatype exn =
    AdapterError ustring
  | KeyError ustring
  | IndexError ustring
  | ValueError ustring
  | OverflowError ustring
  | AttributeError ustring
  | UnicodeEncodeError ustring
  | FileNotFoundError ustring
  | GSpreadException ustring
  | StopException ustring

fun is_Exception :: "exn \<Rightarrow> bool" where
  "is_Exception (StopException _) = False"
| "is_Exception _ = True"

text \<open>\<open>str(e)\<close>: every exception carries its text.\<close>

fun exn_text :: "exn \<Rightarrow> ustring" where
  "exn_text (AdapterError m) = m"
| "exn_text (KeyError m) = m"
| "exn_text (IndexError m) = m"
| "exn_text (ValueError m) = m"
| "exn_text (OverflowError m) = m"
| "exn_text (AttributeError m) = m"
| "exn_text (FileNotFoundError m) = m"
| "exn_text (GSpreadException m) = m"
| "exn_text (UnicodeEncodeError m) = m"
| "exn_text (StopException m) = m"

section \<open>The backing store and the gspread calls\<close>

datatype ws_name = Inventory | Invoices | Invoice_Items

datatype 'm call =
    Open
  | Worksheet ws_name
  | GetAllValues ws_name
  | GetAllRecords ws_name
  | AppendRow ws_name "'m cell list"
  | UpdateCell ws_name nat nat "'m cell"
  | Find ws_name ustring
  | DeleteRows ws_name nat

text \<open>
  The store holds the three worksheets. \<open>faults\<close> is the fate of the coming network
  calls, one entry per call: \<open>None\<close> lets the call through, \<open>Some m\<close> makes it raise
  an exception of text \<open>m\<close> without effect; when the list is used up every call succeeds.
  \<open>calls\<close> records the calls that went through, in order. \<open>secrets\<close> is the state of
  \<open>st.secrets\<close>: loaded with the service account, loaded without it, or not readable
  (reading it raises \<open>FileNotFoundError\<close> with the text given).
\<close>

datatype secrets_state = SecretsLoaded | SecretsWithoutKey | SecretsUnreadable ustring

record 'm store =
  secrets :: secrets_state
  inventory :: "'m sheet"
  invoices :: "'m sheet"
  invoice_items :: "'m sheet"
  faults :: "ustring option list"
  calls :: "'m call list"

fun sheet_of :: "ws_name \<Rightarrow> 'm store \<Rightarrow> 'm sheet" where
  "sheet_of Inventory st = inventory st"
| "sheet_of Invoices st = invoices st"
| "sheet_of Invoice_Items st = invoice_items st"

fun set_sheet :: "ws_name \<Rightarrow> 'm sheet \<Rightarrow> 'm store \<Rightarrow> 'm store" where
  "set_sheet Inventory sh st = st\<lparr>inventory := sh\<rparr>"
| "set_sheet Invoices sh st = st\<lparr>invoices := sh\<rparr>"
| "set_sheet Invoice_Items sh st = st\<lparr>invoice_items := sh\<rparr>"

text \<open>
  The API hands back the values of a sheet without the empty cells that end a row and
  without the empty rows that end the sheet. \<open>append_row\<close> puts the new row after the
  table that starts the sheet: in the first row without values, or after the last row.
\<close>

definition blank :: "'m cell \<Rightarrow> bool" where
  "blank c \<longleftrightarrow> c = TextCell []"

definition rstrip :: "('a \<Rightarrow> bool) \<Rightarrow> 'a list \<Rightarrow> 'a list" where
  "rstrip P xs = rev (dropWhile P (rev xs))"

definition values_of :: "'m sheet \<Rightarrow> 'm sheet" where
  "values_of sh = rstrip (\<lambda>r. r = []) (map (rstrip blank) sh)"

fun put_row :: "'m cell list \<Rightarrow> 'm sheet \<Rightarrow> 'm sheet" where
  "put_row row [] = [row]"
| "put_row row (r # rs) = (if rstrip blank r = [] then row # rs else r # put_row row rs)"

text \<open>
  \<open>update_cell(r, c, v)\<close> addresses the grid from 1; a cell beyond the rows or columns
  holding data is an empty cell of the grid, which the write fills.
\<close>

definition set_cell :: "nat \<Rightarrow> nat \<Rightarrow> 'm cell \<Rightarrow> 'm sheet \<Rightarrow> 'm sheet" where
  "set_cell r c v sh =
     (let sh' = pad r [] sh in sh'[r - 1 := (pad c (TextCell []) (sh' ! (r - 1)))[c - 1 := v]])"

text \<open>What a call that goes through does to the sheets.\<close>

fun effect :: "'m call \<Rightarrow> 'm store \<Rightarrow> 'm store" where
  "effect (AppendRow n row) st = set_sheet n (put_row row (sheet_of n st)) st"
| "effect (UpdateCell n r c v) st = set_sheet n (set_cell r c v (sheet_of n st)) st"
| "effect (DeleteRows n r) st = set_sheet n (take (r - 1) (sheet_of n st) @ drop r (sheet_of n st)) st"
| "effect _ st = st"

text \<open>Code that reads and writes the store and may raise: a state and exception monad.\<close>

type_synonym ('m, 'a) io = "'m store \<Rightarrow> (exn + 'a) \<times> 'm store"

definition ret :: "'a \<Rightarrow> ('m, 'a) io" where
  "ret a st = (Inr a, st)"

definition throw :: "exn \<Rightarrow> ('m, 'a) io" where
  "throw e st = (Inl e, st)"

definition bnd :: "('m, 'a) io \<Rightarrow> ('a \<Rightarrow> ('m, 'b) io) \<Rightarrow> ('m, 'b) io" where
  "bnd m k st = (case m st of (Inl e, st') \<Rightarrow> (Inl e, st') | (Inr a, st') \<Rightarrow> k a st')"

definition lift :: "exn + 'a \<Rightarrow> ('m, 'a) io" where
  "lift r st = (r, st)"

text \<open>One network call: it fails as \<open>faults\<close> says, or is recorded and takes effect.\<close>

definition request :: "'m call \<Rightarrow> ('m, unit) io" where
  "request c st =
     (case faults st of
        [] \<Rightarrow> (Inr (), effect c (st\<lparr>calls := calls st @ [c]\<rparr>))
      | None # fs \<Rightarrow> (Inr (), effect c (st\<lparr>faults := fs, calls := calls st @ [c]\<rparr>))
      | Some m # fs \<Rightarrow> (Inl (AdapterError m), st\<lparr>faults := fs\<rparr>))"

definition secrets_missing_msg :: ustring where
  "secrets_missing_msg = 10060 # u '' Secrets missing! Please go to Settings > Secrets on Streamlit Cloud.''"

definition connection_error_msg :: "exn \<Rightarrow> ustring" where
  "connection_error_msg e = 10060 # u '' Connection Error: '' @ exn_text e"

definition get_db_connection :: "('m, unit) io" where
  "get_db_connection st =
     (case secrets st of
        SecretsUnreadable m \<Rightarrow> (Inl (StopException (connection_error_msg (FileNotFoundError m))), st)
      | SecretsWithoutKey \<Rightarrow> (Inl (StopException secrets_missing_msg), st)
      | SecretsLoaded \<Rightarrow>
          (case request Open st of
             (Inl e, st') \<Rightarrow> (Inl (StopException (connection_error_msg e)), st')
           | (Inr x, st') \<Rightarrow> (Inr x, st')))"

definition worksheet :: "ws_name \<Rightarrow> ('m, unit) io" where
  "worksheet n = request (Worksheet n)"

text \<open>\<open>get_all_values\<close> gives the values of the sheet, and \<open>[[]]\<close> for a sheet
  without any value.\<close>

definition all_values :: "'m sheet \<Rightarrow> 'm sheet" where
  "all_values sh = (if values_of sh = [] then [[]] else values_of sh)"

definition get_all_values :: "ws_name \<Rightarrow> ('m, 'm sheet) io" where
  "get_all_values n =
     bnd (request (GetAllValues n)) (\<lambda>_ st. (Inr (all_values (sheet_of n st)), st))"

definition append_row :: "ws_name \<Rightarrow> 'm cell list \<Rightarrow> ('m, unit) io" where
  "append_row n row = request (AppendRow n row)"

definition update_cell :: "ws_name \<Rightarrow> nat \<Rightarrow> nat \<Rightarrow> 'm cell \<Rightarrow> ('m, unit) io" where
  "update_cell n r c v =
     (if r = 0 \<or> c = 0 then
        throw (GSpreadException (u (''('' @ str_nat r @ '', '' @ str_nat c @ '')'')))
      else request (UpdateCell n r c v))"

text \<open>
  \<open>get_all_records\<close>: the rows are filled with empty cells to the width of the widest;
  the texts of the title row are the keys and must differ from one another; every
  later row gives a dict. A sheet without values gives no record.
\<close>

type_synonym 'm dict = "(ustring \<times> 'm cell) list"

definition width :: "'a list list \<Rightarrow> nat" where
  "width sh = foldr (\<lambda>r w. max (length r) w) sh 0"

definition records_of :: "'m py_ops \<Rightarrow> 'm sheet \<Rightarrow> exn + 'm dict list" where
  "records_of fo sh =
     (case values_of sh of [] \<Rightarrow> Inr []
      | title # data \<Rightarrow>
          (let w = width (values_of sh); keys = map (cell_text fo) (pad w (TextCell []) title) in
           if \<not> distinct keys then Inl (GSpreadException (gs_dup_msg fo keys))
           else Inr (map (\<lambda>r. zip keys (pad w (TextCell []) r)) data)))"

definition get_all_records :: "'m py_ops \<Rightarrow> ws_name \<Rightarrow> ('m, 'm dict list) io" where
  "get_all_records fo n = bnd (request (GetAllRecords n)) (\<lambda>_ st. (records_of fo (sheet_of n st), st))"

section \<open>The pandas frame\<close>

text \<open>
  \<open>pd.DataFrame(records)\<close> is kept as the list of records. A column is held with
  one type: as it is when a value of it is text or when all are integers, and as
  floats when it has a float and no text, the integers turned into floats.
  \<open>df[k]\<close> raises \<open>KeyError\<close> when the frame has no such column (a frame built from no
  record has no column).
\<close>

definition dict_get :: "'m dict \<Rightarrow> ustring \<Rightarrow> 'm cell" where
  "dict_get d k = (case map_of d k of Some v \<Rightarrow> v | None \<Rightarrow> TextCell [])"

fun is_text :: "'m cell \<Rightarrow> bool" where
  "is_text (TextCell _) = True"
| "is_text _ = False"

fun is_float :: "'m cell \<Rightarrow> bool" where
  "is_float (FloatCell _) = True"
| "is_float _ = False"

definition series :: "'m py_ops \<Rightarrow> 'm cell list \<Rightarrow> 'm cell list" where
  "series fo vals =
     (if list_ex is_text vals then vals
      else if list_ex is_float vals then
        map (\<lambda>c. case c of IntCell n \<Rightarrow> FloatCell (f_of_int fo n) | _ \<Rightarrow> c) vals
      else vals)"

definition column :: "'m py_ops \<Rightarrow> ustring \<Rightarrow> 'm dict list \<Rightarrow> exn + 'm cell list" where
  "column fo k df =
     (case df of [] \<Rightarrow> Inl (KeyError (py_repr fo k))
      | d # _ \<Rightarrow> if k \<in> fst ` set d then Inr (series fo (map (\<lambda>r. dict_get r k) df))
                 else Inl (KeyError (py_repr fo k)))"

fun first_index :: "('a \<Rightarrow> bool) \<Rightarrow> 'a list \<Rightarrow> nat option" where
  "first_index P [] = None"
| "first_index P (x # xs) = (if P x then Some 0 else map_option Suc (first_index P xs))"

text \<open>\<open>int(v)\<close> on a value of a column.\<close>

definition py_int :: "'m py_ops \<Rightarrow> 'm cell \<Rightarrow> exn + int" where
  "py_int fo c =
     (case c of
        IntCell n \<Rightarrow> Inr n
      | FloatCell x \<Rightarrow>
          (case f_kind fo x of
             Finite \<Rightarrow> Inr (f_trunc fo x)
           | Infinite \<Rightarrow> Inl (OverflowError (u ''cannot convert float infinity to integer''))
           | NaN \<Rightarrow> Inl (ValueError (u ''cannot convert float NaN to integer'')))
      | TextCell t \<Rightarrow>
          (case py_int_str fo t of
             Some n \<Rightarrow> Inr n
           | None \<Rightarrow> Inl (ValueError (u ''invalid literal for int() with base 10: '' @ py_repr fo t))))"

section \<open>Company settings\<close>

definition COMPANY_NAME :: ustring where
  "COMPANY_NAME = u ''MEDSURG TECHNOLOGY''"

definition COMPANY_ADDRESS :: ustring where
  "COMPANY_ADDRESS = u (''Post Office Box 793, Madina'' @ [CHR 0x0A] @ ''Accra, Ghana'')"

definition COMPANY_PHONE :: ustring where
  "COMPANY_PHONE = u ''+233 20 479 3691 / +233 24 200 1242''"

definition COMPANY_EMAIL :: ustring where
  "COMPANY_EMAIL = u ''medsurgtechnology@gmail.com''"

definition THANK_YOU_MSG :: ustring where
  "THANK_YOU_MSG = u ''Thank you for your business!''"

section \<open>The cart\<close>

record 'm cart_line =
  item :: ustring
  qty :: int
  price :: 'm
  subtotal :: 'm

text \<open>\<open>sum(x['subtotal'] for x in cart)\<close>: a left fold that starts from the integer 0.\<close>

definition cart_total :: "'m py_ops \<Rightarrow> 'm cart_line list \<Rightarrow> 'm" where
  "cart_total fo cart = foldl (f_add fo) (f_of_int fo 0) (map subtotal cart)"

section \<open>The PDF generator\<close>

text \<open>
  The document is the sequence of drawing calls made on the FPDF object (PyFPDF 1.7,
  whose \<open>output(dest='S')\<close> is a \<open>str\<close>); of a text call the size and the text are
  kept (border, line break, alignment and fill are layout only). With its built-in
  fonts FPDF takes Latin-1 text and raises on any other character, which is why the
  program cleans every text it draws.
\<close>

datatype pdf_op =
    AddPage
  | SetFont string string nat
  | Cell nat nat string
  | MultiCell nat nat string
  | Ln nat
  | SetLineWidth
  | Line
  | SetFillColor nat nat nat

definition latin1 :: "ustring \<Rightarrow> bool" where
  "latin1 t = list_all (\<lambda>c. c < 256) t"

definition pdf_emit :: "pdf_op \<Rightarrow> pdf_op list \<Rightarrow> exn + pdf_op list" where
  "pdf_emit op ops = Inr (ops @ [op])"

definition pdf_cell :: "'m py_ops \<Rightarrow> nat \<Rightarrow> nat \<Rightarrow> ustring \<Rightarrow> pdf_op list \<Rightarrow> exn + pdf_op list" where
  "pdf_cell fo w h t ops =
     (if latin1 t then Inr (ops @ [Cell w h (map char_of t)])
      else Inl (UnicodeEncodeError (latin1_msg fo t)))"

definition pdf_multi_cell :: "'m py_ops \<Rightarrow> nat \<Rightarrow> nat \<Rightarrow> ustring \<Rightarrow> pdf_op list \<Rightarrow> exn + pdf_op list" where
  "pdf_multi_cell fo w h t ops =
     (if latin1 t then Inr (ops @ [MultiCell w h (map char_of t)])
      else Inl (UnicodeEncodeError (latin1_msg fo t)))"

text \<open>Statements run one after the other; the first that raises ends the run.\<close>

fun run :: "('s \<Rightarrow> exn + 's) list \<Rightarrow> 's \<Rightarrow> exn + 's" where
  "run [] s = Inr s"
| "run (f # fs) s = (case f s of Inl e \<Rightarrow> Inl e | Inr s' \<Rightarrow> run fs s')"

text \<open>\<open>str(text).encode('latin-1', 'replace').decode('latin-1')\<close>: a question mark
  takes the place of every character outside Latin-1.\<close>

definition clean :: "ustring \<Rightarrow> ustring" where
  "clean t = map (\<lambda>c. if c < 256 then c else 63) t"

definition item_row :: "'m py_ops \<Rightarrow> 'm cart_line \<Rightarrow> (pdf_op list \<Rightarrow> exn + pdf_op list) list" where
  "item_row fo i =
     [pdf_cell fo 90 10 (clean (item i)),
      pdf_cell fo 30 10 (u (str_int (qty i))),
      pdf_cell fo 35 10 (u (f_fmt2 fo (price i))),
      pdf_cell fo 35 10 (u (f_fmt2 fo (subtotal i)))]"

definition create_pdf ::
  "'m py_ops \<Rightarrow> int \<Rightarrow> ustring \<Rightarrow> ustring \<Rightarrow> 'm cart_line list \<Rightarrow> 'm \<Rightarrow> exn + pdf_op list" where
  "create_pdf fo invoice_id customer_name date items tot =
     run ([pdf_emit AddPage,
           pdf_emit (SetFont ''Arial'' ''B'' 20),
           pdf_cell fo 0 10 (clean COMPANY_NAME),
           pdf_emit (SetFont ''Arial'' [] 10),
           pdf_multi_cell fo 0 5 (clean COMPANY_ADDRESS),
           pdf_cell fo 0 5 (u ''Tel: '' @ clean COMPANY_PHONE),
           pdf_cell fo 0 5 (u ''Email: '' @ clean COMPANY_EMAIL),
           pdf_emit (Ln 10),
           pdf_emit SetLineWidth,
           pdf_emit Line,
           pdf_emit (Ln 5),
           pdf_emit (SetFont ''Arial'' ''B'' 12),
           pdf_cell fo 0 10 (u ''OFFICIAL INVOICE''),
           pdf_emit (SetFont ''Arial'' [] 11),
           pdf_cell fo 100 8 (u ''Customer: '' @ clean customer_name),
           pdf_cell fo 90 8 (u ''Invoice #: '' @ u (str_int invoice_id)),
           pdf_cell fo 100 8 [],
           pdf_cell fo 90 8 (u ''Date: '' @ clean date),
           pdf_emit (Ln 5),
           pdf_emit (SetFillColor 240 240 240),
           pdf_emit (SetFont ''Arial'' ''B'' 11),
           pdf_cell fo 90 10 (u ''Description''),
           pdf_cell fo 30 10 (u ''Qty''),
           pdf_cell fo 35 10 (u ''Unit Price''),
           pdf_cell fo 35 10 (u ''Total''),
           pdf_emit (SetFont ''Arial'' [] 11)]
          @ concat (map (item_row fo) items)
          @ [pdf_emit (Ln 5),
             pdf_emit (SetFont ''Arial'' ''B'' 12),
             pdf_cell fo 155 10 (u ''GRAND TOTAL (GHS):''),
             pdf_cell fo 35 10 (u (f_fmt2c fo tot)),
             pdf_emit (Ln 20),
             pdf_emit (SetFont ''Arial'' ''I'' 10),
             pdf_cell fo 0 10 (clean THANK_YOU_MSG)]) []"

section \<open>The point of sale: Confirm and Print\<close>

definition Item_Name :: ustring where "Item_Name = u ''Item Name''"

definition Stock_Qty :: ustring where "Stock_Qty = u ''Stock Qty''"

definition Unit_Price :: ustring where "Unit_Price = u ''Unit Price''"

text \<open>\<open>df.index[df['Item Name'] == name].tolist()[0]\<close>\<close>

definition index_first :: "'m py_ops \<Rightarrow> 'm dict list \<Rightarrow> ustring \<Rightarrow> exn + nat" where
  "index_first fo df name =
     (case column fo Item_Name df of Inl e \<Rightarrow> Inl e
      | Inr names \<Rightarrow>
          (case first_index (\<lambda>c. c = TextCell name) names of
             None \<Rightarrow> Inl (IndexError (u ''list index out of range''))
           | Some k \<Rightarrow> Inr k))"

text \<open>\<open>df.loc[df['Item Name'] == name, col].values[0]\<close>\<close>

definition loc_first :: "'m py_ops \<Rightarrow> 'm dict list \<Rightarrow> ustring \<Rightarrow> ustring \<Rightarrow> exn + 'm cell" where
  "loc_first fo df name col =
     (case column fo Item_Name df of Inl e \<Rightarrow> Inl e
      | Inr names \<Rightarrow>
          (case column fo col df of Inl e \<Rightarrow> Inl e
           | Inr vals \<Rightarrow>
               (case first_index (\<lambda>c. c = TextCell name) names of
                  None \<Rightarrow> Inl (IndexError (u ''index 0 is out of bounds for axis 0 with size 0''))
                | Some k \<Rightarrow> Inr (vals ! k))))"

fun for_each :: "('a \<Rightarrow> ('m, unit) io) \<Rightarrow> 'a list \<Rightarrow> ('m, unit) io" where
  "for_each f [] st = (Inr (), st)"
| "for_each f (x # xs) st = (case f x st of (Inl e, st') \<Rightarrow> (Inl e, st') | (Inr _, st') \<Rightarrow> for_each f xs st')"

text \<open>The body of the loop over the cart, for one line \<open>i\<close>.\<close>

definition commit_line :: "'m py_ops \<Rightarrow> int \<Rightarrow> 'm dict list \<Rightarrow> 'm cart_line \<Rightarrow> ('m, unit) io" where
  "commit_line fo inv_id stock_df i =
     bnd (lift (index_first fo stock_df (item i))) (\<lambda>k.
     let row_idx = k + 2 in
     bnd (lift (loc_first fo stock_df (item i) Stock_Qty)) (\<lambda>curr.
     bnd (lift (py_int fo curr)) (\<lambda>n.
     bnd (update_cell Inventory row_idx 2 (IntCell (n - qty i))) (\<lambda>_.
     append_row Invoice_Items [IntCell inv_id, TextCell (item i), IntCell (qty i), FloatCell (subtotal i)]))))"

text \<open>The \<open>try\<close> block of the button; \<open>ts\<close> is the clock reading it formats.\<close>

definition commit ::
  "'m py_ops \<Rightarrow> ustring \<Rightarrow> ustring \<Rightarrow> 'm cart_line list \<Rightarrow> 'm \<Rightarrow> ('m, int \<times> pdf_op list) io" where
  "commit fo cust ts cart tot =
     bnd get_db_connection (\<lambda>_.
     bnd (worksheet Invoices) (\<lambda>_.
     bnd (worksheet Invoice_Items) (\<lambda>_.
     bnd (worksheet Inventory) (\<lambda>_.
     bnd (get_all_values Invoices) (\<lambda>vals.
     let inv_id = int (length vals) + 1000 in
     bnd (append_row Invoices [IntCell inv_id, TextCell cust, TextCell ts, FloatCell tot]) (\<lambda>_.
     bnd (get_all_records fo Inventory) (\<lambda>stock_df.
     bnd (for_each (commit_line fo inv_id stock_df) cart) (\<lambda>_.
     bnd (lift (create_pdf fo inv_id cust ts cart tot)) (\<lambda>pdf_bytes.
     ret (inv_id, pdf_bytes))))))))))"

text \<open>
  What a run of a part of the page shows: nothing, the download of an invoice
  (\<open>st.download_button\<close> and \<open>st.success\<close>), a message of \<open>st.success\<close>,
  \<open>st.warning\<close> or \<open>st.error\<close>, or an exception that leaves the script.
\<close>

datatype outcome =
    Idle
  | Downloaded int "pdf_op list"
  | Succeeded ustring
  | Warned ustring
  | Reported ustring
  | Raised exn

text \<open>
  The bill column of the sale tab: drawn only when the cart holds a line; \<open>clicked\<close>
  says whether the button was pressed in this run. The result is what is shown, the
  cart and the store afterwards.
\<close>

definition tab2_bill ::
  "'m py_ops \<Rightarrow> bool \<Rightarrow> ustring \<Rightarrow> ustring \<Rightarrow> 'm cart_line list \<Rightarrow> 'm store
     \<Rightarrow> outcome \<times> 'm cart_line list \<times> 'm store" where
  "tab2_bill fo clicked cust ts cart st =
     (if cart \<noteq> [] then
        (let tot = cart_total fo cart in
         if clicked then
           (case commit fo cust ts cart tot st of
              (Inr (inv_id, pdf_bytes), st') \<Rightarrow> (Downloaded inv_id pdf_bytes, [], st')
            | (Inl e, st') \<Rightarrow>
                (if is_Exception e then (Reported (u ''An error occurred: '' @ exn_text e), cart, st')
                 else (Raised e, cart, st')))
         else (Idle, cart, st))
      else (Idle, cart, st))"

section \<open>Adding to the cart\<close>

text \<open>The titles \<open>init_db\<close> gives the Inventory sheet.\<close>

definition inventory_titles :: "'m cell list" where
  "inventory_titles = [TextCell Item_Name, TextCell Stock_Qty, TextCell Unit_Price]"

text \<open>
  A row of the frame \<open>get_inventory\<close> returns: the name as the sheet holds it, the stock
  as the integer and the price as the float its two conversions leave.
\<close>

record 'm inv_record =
  inv_name :: "'m cell"
  inv_stock :: int
  inv_price :: 'm

text \<open>\<open>q * p\<close> for an integer and a float: the integer is made a float first, which
  raises for one too large.\<close>

definition int_times_float :: "'m py_ops \<Rightarrow> int \<Rightarrow> 'm \<Rightarrow> exn + 'm" where
  "int_times_float fo q p =
     (if \<bar>q\<bar> < 2 ^ 1024 - 2 ^ 970 then Inr (f_mul fo (f_of_int fo q) p)
      else Inl (OverflowError (u ''int too large to convert to float'')))"

text \<open>The body of the Add to Cart button: \<open>df\<close> is the inventory read at the top of the
  tab in this run of the page, \<open>product\<close> the selected item name, \<open>quantity\<close> the number
  entered.\<close>

definition add_to_cart ::
  "'m py_ops \<Rightarrow> 'm inv_record list \<Rightarrow> ustring \<Rightarrow> int \<Rightarrow> 'm cart_line list
     \<Rightarrow> exn + outcome \<times> 'm cart_line list" where
  "add_to_cart fo df product quantity cart =
     (case filter (\<lambda>r. inv_name r = TextCell product) df of
        [] \<Rightarrow> Inl (IndexError (u ''index 0 is out of bounds for axis 0 with size 0''))
      | r # _ \<Rightarrow>
          (let stock = inv_stock r; pr = inv_price r in
           if quantity > stock then
             Inr (Reported (u ''Low Stock! Only '' @ u (str_int stock) @ u '' left.''), cart)
           else
             (case int_times_float fo quantity pr of
                Inl e \<Rightarrow> Inl e
              | Inr sub \<Rightarrow>
                  Inr (Succeeded (u ''Added '' @ product),
                       cart @ [\<lparr>item = product, qty = quantity, price = pr, subtotal = sub\<rparr>]))))"

text \<open>The top of the sale tab below the reading of the inventory.\<close>

definition tab2_add ::
  "'m py_ops \<Rightarrow> bool \<Rightarrow> 'm inv_record list \<Rightarrow> ustring \<Rightarrow> int \<Rightarrow> 'm cart_line list
     \<Rightarrow> outcome \<times> 'm cart_line list" where
  "tab2_add fo clicked df product quantity cart =
     (if df = [] then (Warned (u ''No items in stock.''), cart)
      else if clicked then
        (case add_to_cart fo df product quantity cart of
           Inl e \<Rightarrow> (Raised e, cart)
         | Inr (shown, cart') \<Rightarrow> (shown, cart'))
      else (Idle, cart))"

section \<open>Deleting an item\<close>

text \<open>
  \<open>ws.find(name)\<close> looks through every cell of the values of the sheet, the rows filled
  to one width, row by row, for one whose text is \<open>name\<close>, and gives the first or
  \<open>None\<close>; of the cell found only the row number is used.
\<close>

definition find_row :: "'m py_ops \<Rightarrow> ustring \<Rightarrow> 'm sheet \<Rightarrow> nat option" where
  "find_row fo name sh =
     (let v = values_of sh in
      map_option Suc
        (first_index (list_ex (\<lambda>c. cell_text fo c = name)) (map (pad (width v) (TextCell [])) v)))"

definition ws_find :: "'m py_ops \<Rightarrow> ws_name \<Rightarrow> ustring \<Rightarrow> ('m, nat option) io" where
  "ws_find fo n name = bnd (request (Find n name)) (\<lambda>_ st. (Inr (find_row fo name (sheet_of n st)), st))"

definition delete_rows :: "ws_name \<Rightarrow> nat \<Rightarrow> ('m, unit) io" where
  "delete_rows n r = request (DeleteRows n r)"

definition delete_item :: "'m py_ops \<Rightarrow> ustring \<Rightarrow> 'm store \<Rightarrow> outcome \<times> 'm store" where
  "delete_item fo name st =
     (case bnd get_db_connection (\<lambda>_. worksheet Inventory) st of
        (Inl e, st') \<Rightarrow> (Raised e, st')
      | (Inr _, st') \<Rightarrow>
          (case bnd (ws_find fo Inventory name)
                  (\<lambda>found. case found of
                       None \<Rightarrow> throw (AttributeError (u ''NoneType object has no attribute row''))
                     | Some r \<Rightarrow> delete_rows Inventory r) st' of
             (Inr _, st'') \<Rightarrow> (Succeeded (u ''Deleted '' @ u [CHR 0x27] @ name @ u [CHR 0x27]), st'')
           | (Inl e, st'') \<Rightarrow> (Reported (u ''Item not found.''), st'')))"

section \<open>An interpretation of the amounts for the examples\<close>

text \<open>Whole-number amounts, computed exactly and printed with two zero decimals.\<close>

fun sep3 :: "string \<Rightarrow> string" where
  "sep3 (a # b # c # d # ds) = a # b # c # CHR '','' # sep3 (d # ds)"
| "sep3 ds = ds"

definition whole_ops :: "int py_ops" where
  "whole_ops =
     \<lparr>f_of_int = (\<lambda>n. n), f_add = (\<lambda>a b. a + b), f_mul = (\<lambda>a b. a * b),
      f_kind = (\<lambda>n. Finite), f_trunc = (\<lambda>n. n),
      f_shown = str_int,
      f_fmt2 = (\<lambda>n. str_int n @ ''.00''),
      f_fmt2c = (\<lambda>n. (if n < 0 then ''-'' else []) @ rev (sep3 (rev (str_nat (nat \<bar>n\<bar>)))) @ ''.00''),
      py_repr = (\<lambda>s. u [CHR 0x27] @ s @ u [CHR 0x27]),
      py_int_str = (\<lambda>s. None),
      gs_dup_msg = (\<lambda>ks. u ''the header row in the worksheet is not unique''),
      latin1_msg = (\<lambda>s. u ''latin-1 codec cannot encode characters'')\<rparr>"

section \<open>The calls of a run\<close>

text \<open>
  \<open>replay cs st\<close> applies the effects of the calls \<open>cs\<close> in order; \<open>steps st new st'\<close> says
  that a run from \<open>st\<close> to \<open>st'\<close> made exactly the calls \<open>new\<close> and that the sheets of
  \<open>st'\<close> are those the calls produce. \<open>line_calls\<close> are the two writes the loop body makes
  for a cart line, given the snapshot \<open>df\<close> of the inventory.
\<close>

definition replay :: "'m call list \<Rightarrow> 'm store \<Rightarrow> 'm store" where
  "replay cs st = foldl (\<lambda>s c. effect c s) st cs"

definition steps :: "'m store \<Rightarrow> 'm call list \<Rightarrow> 'm store \<Rightarrow> bool" where
  "steps st new st' \<longleftrightarrow>
     calls st' = calls st @ new \<and> (\<forall>n. sheet_of n st' = sheet_of n (replay new st)) \<and> secrets st' = secrets st"

definition line_calls :: "'m py_ops \<Rightarrow> int \<Rightarrow> 'm dict list \<Rightarrow> 'm cart_line \<Rightarrow> 'm call list" where
  "line_calls fo inv_id df i =
     (case index_first fo df (item i) of Inl e \<Rightarrow> []
      | Inr k \<Rightarrow>
     (case loc_first fo df (item i) Stock_Qty of Inl e \<Rightarrow> []
      | Inr c0 \<Rightarrow>
     (case py_int fo c0 of Inl e \<Rightarrow> []
      | Inr n \<Rightarrow>
          [UpdateCell Inventory (k + 2) 2 (IntCell (n - qty i)),
           AppendRow Invoice_Items [IntCell inv_id, TextCell (item i), IntCell (qty i), FloatCell (subtotal i)]])))"

text \<open>The identifier line 234 computes from the Invoices sheet.\<close>

definition next_invoice_id :: "'m sheet \<Rightarrow> int" where
  "next_invoice_id sh = int (length (all_values sh)) + 1000"

definition planned_calls ::
  "'m py_ops \<Rightarrow> ustring \<Rightarrow> ustring \<Rightarrow> 'm cart_line list \<Rightarrow> 'm \<Rightarrow> 'm store \<Rightarrow> 'm call list" where
  "planned_calls fo cust ts cart tot st =
     (let inv_id = next_invoice_id (invoices st) in
      [Open, Worksheet Invoices, Worksheet Invoice_Items, Worksheet Inventory, GetAllValues Invoices,
       AppendRow Invoices [IntCell inv_id, TextCell cust, TextCell ts, FloatCell tot],
       GetAllRecords Inventory]
      @ (case records_of fo (inventory st) of
           Inl e \<Rightarrow> []
         | Inr df \<Rightarrow> concat (map (line_calls fo inv_id df) cart)))"

text \<open>The outcome of a run against the calls planned for it: the calls made are an
  initial part of the plan, all of it when the run returns, and what is raised is an
  \<open>Exception\<close>.\<close>

definition follows :: "'m call list \<Rightarrow> 'm store \<Rightarrow> exn + 'a \<Rightarrow> 'm store \<Rightarrow> bool" where
  "follows plan st r st' \<longleftrightarrow>
     (\<exists>new. steps st new st' \<and> prefix new plan \<and> (\<forall>x. r = Inr x \<longrightarrow> new = plan)
        \<and> (\<forall>e. r = Inl e \<longrightarrow> is_Exception e))"

text \<open>The drawing calls of a finished document: those before the table rows, the
  four cells of the row of a cart line, and those after the rows.\<close>

definition row_cells :: "'m py_ops \<Rightarrow> 'm cart_line \<Rightarrow> pdf_op list" where
  "row_cells fo i =
     [Cell 90 10 (map char_of (clean (item i))), Cell 30 10 (str_int (qty i)),
      Cell 35 10 (f_fmt2 fo (price i)), Cell 35 10 (f_fmt2 fo (subtotal i))]"

definition pdf_head :: "int \<Rightarrow> ustring \<Rightarrow> ustring \<Rightarrow> pdf_op list" where
  "pdf_head invoice_id customer_name date =
     [AddPage,
      SetFont ''Arial'' ''B'' 20,
      Cell 0 10 (map char_of (clean COMPANY_NAME)),
      SetFont ''Arial'' [] 10,
      MultiCell 0 5 (map char_of (clean COMPANY_ADDRESS)),
      Cell 0 5 (''Tel: '' @ map char_of (clean COMPANY_PHONE)),
      Cell 0 5 (''Email: '' @ map char_of (clean COMPANY_EMAIL)),
      Ln 10, SetLineWidth, Line, Ln 5,
      SetFont ''Arial'' ''B'' 12,
      Cell 0 10 ''OFFICIAL INVOICE'',
      SetFont ''Arial'' [] 11,
      Cell 100 8 (''Customer: '' @ map char_of (clean customer_name)),
      Cell 90 8 (''Invoice #: '' @ str_int invoice_id),
      Cell 100 8 [],
      Cell 90 8 (''Date: '' @ map char_of (clean date)),
      Ln 5,
      SetFillColor 240 240 240,
      SetFont ''Arial'' ''B'' 11,
      Cell 90 10 ''Description'', Cell 30 10 ''Qty'', Cell 35 10 ''Unit Price'', Cell 35 10 ''Total'',
      SetFont ''Arial'' [] 11]"

definition pdf_foot :: "'m py_ops \<Rightarrow> 'm \<Rightarrow> pdf_op list" where
  "pdf_foot fo tot =
     [Ln 5, SetFont ''Arial'' ''B'' 12,
      Cell 155 10 ''GRAND TOTAL (GHS):'',
      Cell 35 10 (f_fmt2c fo tot),
      Ln 20, SetFont ''Arial'' ''I'' 10,
      Cell 0 10 (map char_of (clean THANK_YOU_MSG))]"

section \<open>A store and a cart for the examples\<close>

text \<open>The example of the specification: Gauze, 10 in stock at 5.00, and a cart of 3 of
  them; the three sheets hold their title rows.\<close>

definition store0 :: "int store" where
  "store0 = \<lparr>secrets = SecretsLoaded,
     inventory = [inventory_titles, [TextCell (u ''Gauze''), IntCell 10, FloatCell 5]],
     invoices = [[TextCell (u ''Invoice ID''), TextCell (u ''Customer Name''), TextCell (u ''Date''), TextCell (u ''Total Amount'')]],
     invoice_items = [[TextCell (u ''Invoice ID''), TextCell Item_Name, TextCell (u ''Qty''), TextCell (u ''Subtotal'')]],
     faults = [], calls = []\<rparr>"


fun downloaded :: "outcome \<Rightarrow> bool" where
  "downloaded (Downloaded _ _) = True"
| "downloaded _ = False"


text \<open>A run that ends in an error: a message of \<open>st.error\<close> or an exception.\<close>

fun failed :: "outcome \<Rightarrow> bool" where
  "failed (Reported _) = True"
| "failed (Raised _) = True"
| "failed _ = False"

fun invoice_id_of :: "outcome \<Rightarrow> int option" where
  "invoice_id_of (Downloaded i _) = Some i"
| "invoice_id_of _ = None"


definition walk_in :: ustring where
  "walk_in = u ''Walk-in''"

definition noon :: ustring where
  "noon = u ''2024-01-01 12:00:00''"
section \<open>Basic facts about the calls\<close>

lemma bndE:
  assumes "bnd m k st = (Inr b, st'')"
  obtains a st' where "m st = (Inr a, st')" and "k a st' = (Inr b, st'')"
  using assms by (auto simp: bnd_def split: prod.splits sum.splits)

lemma bnd_Inl: "m st = (Inl e, st') \<Longrightarrow> bnd m k st = (Inl e, st')"
  by (simp add: bnd_def)

lemma bnd_Inr: "m st = (Inr a, st') \<Longrightarrow> bnd m k st = k a st'"
  by (simp add: bnd_def)

lemma set_sheet_fields [simp]:
  "calls (set_sheet n sh st) = calls st" "faults (set_sheet n sh st) = faults st"
  "secrets (set_sheet n sh st) = secrets st"
  "set_sheet n sh (st\<lparr>calls := cs\<rparr>) = (set_sheet n sh st)\<lparr>calls := cs\<rparr>"
  "set_sheet n sh (st\<lparr>faults := fs\<rparr>) = (set_sheet n sh st)\<lparr>faults := fs\<rparr>"
  "sheet_of n (st\<lparr>calls := cs\<rparr>) = sheet_of n st"
  "sheet_of n (st\<lparr>faults := fs\<rparr>) = sheet_of n st"
  by (cases n; simp)+

lemma sheet_of_set_sheet [simp]:
  "sheet_of n (set_sheet n' sh st) = (if n = n' then sh else sheet_of n st)"
  by (cases n; cases n'; simp)

lemma effect_fields [simp]:
  "calls (effect c st) = calls st" "faults (effect c st) = faults st" "secrets (effect c st) = secrets st"
  "effect c (st\<lparr>calls := cs\<rparr>) = (effect c st)\<lparr>calls := cs\<rparr>"
  "effect c (st\<lparr>faults := fs\<rparr>) = (effect c st)\<lparr>faults := fs\<rparr>"
  by (cases c; simp)+

lemma request_Inr:
  assumes "request c st = (Inr x, st')"
  shows "calls st' = calls st @ [c]" "\<And>n. sheet_of n st' = sheet_of n (effect c st)" "secrets st' = secrets st"
  using assms by (auto simp: request_def split: list.splits option.splits)

lemma request_Inl:
  assumes "request c st = (Inl e, st')"
  shows "calls st' = calls st" "\<And>n. sheet_of n st' = sheet_of n st" "secrets st' = secrets st" "\<exists>m. e = AdapterError m"
  using assms by (auto simp: request_def split: list.splits option.splits)


lemma effect_sheet_cong:
  "(\<And>n. sheet_of n s1 = sheet_of n s2) \<Longrightarrow> sheet_of n (effect c s1) = sheet_of n (effect c s2)"
  by (cases c) simp_all

lemma replay_sheet_cong:
  "(\<And>n. sheet_of n s1 = sheet_of n s2) \<Longrightarrow> sheet_of n (replay cs s1) = sheet_of n (replay cs s2)"
proof (induction cs arbitrary: s1 s2 n)
  case Nil
  then show ?case by (simp add: replay_def)
next
  case (Cons c cs)
  have "sheet_of n (replay cs (effect c s1)) = sheet_of n (replay cs (effect c s2))"
    by (rule Cons.IH) (rule effect_sheet_cong, rule Cons.prems)
  then show ?case by (simp add: replay_def)
qed

lemma replay_append: "replay (a @ b) st = replay b (replay a st)"
  by (simp add: replay_def)

lemma replay_calls [simp]: "calls (replay cs st) = calls st"
  by (induction cs arbitrary: st) (simp_all add: replay_def)

lemma steps_refl: "steps st [] st"
  by (simp add: steps_def replay_def)

lemma steps_trans:
  assumes "steps st a st1" and "steps st1 b st2"
  shows "steps st (a @ b) st2"
proof -
  have "sheet_of n st2 = sheet_of n (replay (a @ b) st)" for n
  proof -
    have "sheet_of n st2 = sheet_of n (replay b st1)" using assms(2) by (simp add: steps_def)
    also have "\<dots> = sheet_of n (replay b (replay a st))"
      by (rule replay_sheet_cong) (use assms(1) in \<open>simp add: steps_def\<close>)
    finally show ?thesis by (simp add: replay_append)
  qed
  then show ?thesis using assms by (simp add: steps_def)
qed

lemma steps_faults: "steps (st\<lparr>faults := fs\<rparr>) [] st' \<Longrightarrow> steps st [] st'"
  by (simp add: steps_def replay_def)

lemma request_steps:
  assumes "request c st = (r, st')"
  shows "(r = Inr () \<and> steps st [c] st') \<or> ((\<exists>m. r = Inl (AdapterError m)) \<and> steps st [] st')"
  using assms by (auto simp: request_def steps_def replay_def split: list.splits option.splits)

lemma column_Inl: "column fo k df = Inl e \<Longrightarrow> e = KeyError (py_repr fo k)"
  by (auto simp: column_def split: list.splits if_splits)

lemma index_first_Inl: "index_first fo df name = Inl e \<Longrightarrow> is_Exception e"
  by (auto simp: index_first_def split: sum.splits option.splits dest: column_Inl)

lemma loc_first_Inl: "loc_first fo df name col = Inl e \<Longrightarrow> is_Exception e"
  by (auto simp: loc_first_def split: sum.splits option.splits dest: column_Inl)

lemma py_int_Inl: "py_int fo c = Inl e \<Longrightarrow> is_Exception e"
  by (auto simp: py_int_def split: cell.splits float_kind.splits option.splits)

lemma commit_line_steps:
  assumes run: "commit_line fo inv_id df i st = (r, st')"
  shows "\<exists>new. steps st new st' \<and> prefix new (line_calls fo inv_id df i)
     \<and> (r = Inr () \<longrightarrow> new = line_calls fo inv_id df i) \<and> (\<forall>e. r = Inl e \<longrightarrow> is_Exception e)"
proof -
  consider
      (a) e where "index_first fo df (item i) = Inl e"
    | (b) k e where "index_first fo df (item i) = Inr k" "loc_first fo df (item i) Stock_Qty = Inl e"
    | (c) k cur e where "index_first fo df (item i) = Inr k" "loc_first fo df (item i) Stock_Qty = Inr cur"
        "py_int fo cur = Inl e"
    | (d) k cur n where "index_first fo df (item i) = Inr k" "loc_first fo df (item i) Stock_Qty = Inr cur"
        "py_int fo cur = Inr n"
    by (cases "index_first fo df (item i)"; cases "loc_first fo df (item i) Stock_Qty";
        cases "py_int fo (projr (loc_first fo df (item i) Stock_Qty))") auto
  then show ?thesis
  proof cases
    case a
    with run have "r = Inl e" "st' = st" by (simp_all add: commit_line_def bnd_def lift_def)
    with a steps_refl[of st] index_first_Inl[OF a] show ?thesis by (intro exI[of _ "[]"]) simp
  next
    case b
    with run have "r = Inl e" "st' = st" by (simp_all add: commit_line_def bnd_def lift_def)
    with b steps_refl[of st] loc_first_Inl[OF b(2)] show ?thesis by (intro exI[of _ "[]"]) simp
  next
    case c
    with run have "r = Inl e" "st' = st" by (simp_all add: commit_line_def bnd_def lift_def)
    with c steps_refl[of st] py_int_Inl[OF c(3)] show ?thesis by (intro exI[of _ "[]"]) simp
  next
    case d
    let ?c1 = "UpdateCell Inventory (k + 2) 2 (IntCell (n - qty i))"
    let ?c2 = "AppendRow Invoice_Items [IntCell inv_id, TextCell (item i), IntCell (qty i), FloatCell (subtotal i)]"
    have lc: "line_calls fo inv_id df i = [?c1, ?c2]" using d by (simp add: line_calls_def)
    obtain r1 s1 where r1: "request ?c1 st = (r1, s1)" by (cases "request ?c1 st")
    show ?thesis
    proof (cases r1)
      case (Inl e)
      with r1 run d have "r = Inl e" "st' = s1"
        by (simp_all add: commit_line_def bnd_def lift_def update_cell_def append_row_def)
      moreover from request_steps[OF r1] Inl have "steps st [] s1" "is_Exception e" by auto
      ultimately show ?thesis by (intro exI[of _ "[]"]) simp
    next
      case (Inr x)
      with request_steps[OF r1] have s1: "steps st [?c1] s1" by auto
      from Inr r1 run d have r2: "request ?c2 s1 = (r, st')"
        by (simp add: commit_line_def bnd_def lift_def update_cell_def append_row_def)
      from request_steps[OF r2] show ?thesis
      proof
        assume "r = Inr () \<and> steps s1 [?c2] st'"
        with steps_trans[OF s1, of "[?c2]" st'] lc show ?thesis by (intro exI[of _ "[?c1, ?c2]"]) simp
      next
        assume "(\<exists>m. r = Inl (AdapterError m)) \<and> steps s1 [] st'"
        with steps_trans[OF s1, of "[]" st'] lc show ?thesis by (intro exI[of _ "[?c1]"]) auto
      qed
    qed
  qed
qed

lemma commit_line_follows:
  "commit_line fo inv_id df i st = (r, st') \<Longrightarrow> follows (line_calls fo inv_id df i) st r st'"
  unfolding follows_def using commit_line_steps[of fo inv_id df i st r st'] by (cases r) auto

lemma follows_Nil: "is_Exception e \<Longrightarrow> follows plan st (Inl e) st"
  unfolding follows_def using steps_refl[of st] by (intro exI[of _ "[]"]) simp

lemma follows_seq:
  assumes "follows p1 st (Inr x) s1" and "follows p2 s1 r st'"
  shows "follows (p1 @ p2) st r st'"
proof -
  from assms(1) have a: "steps st p1 s1" by (auto simp: follows_def)
  from assms(2) obtain new where n: "steps s1 new st'" "prefix new p2" "\<forall>x. r = Inr x \<longrightarrow> new = p2"
    "\<forall>e. r = Inl e \<longrightarrow> is_Exception e" by (auto simp: follows_def)
  from steps_trans[OF a n(1)] n show ?thesis unfolding follows_def
    by (intro exI[of _ "p1 @ new"]) simp
qed

lemma follows_weaken:
  assumes "follows p1 st (Inl e) st'"
  shows "follows (p1 @ p2) st (Inl e) st'"
  using assms unfolding follows_def by (auto intro: prefix_prefix)

lemma for_each_follows:
  "for_each (commit_line fo inv_id df) cart st = (r, st') \<Longrightarrow>
     follows (concat (map (line_calls fo inv_id df) cart)) st r st'"
proof (induction cart arbitrary: st)
  case Nil
  then show ?case using steps_refl[of st] by (auto simp: follows_def)
next
  case (Cons i cart)
  obtain r1 s1 where r1: "commit_line fo inv_id df i st = (r1, s1)" by (cases "commit_line fo inv_id df i st")
  show ?case
  proof (cases r1)
    case (Inl e)
    with r1 Cons.prems have "r = Inl e" "st' = s1" by simp_all
    with commit_line_follows[OF r1] Inl show ?thesis by (simp add: follows_weaken)
  next
    case (Inr x)
    with r1 Cons.prems have "for_each (commit_line fo inv_id df) cart s1 = (r, st')" by simp
    from Cons.IH[OF this] commit_line_follows[OF r1] Inr show ?thesis by (simp add: follows_seq)
  qed
qed

lemma steps_sheet: "steps st cs s1 \<Longrightarrow> sheet_of n s1 = sheet_of n (replay cs st)"
  by (simp add: steps_def)

lemma step_request:
  assumes run: "bnd (request c) k si = (r, st')"
    and sofar: "steps st sofar si"
    and pre: "prefix (sofar @ [c]) plan"
    and cont: "\<And>s1. steps st (sofar @ [c]) s1 \<Longrightarrow> k () s1 = (r, st') \<Longrightarrow> follows plan st r st'"
  shows "follows plan st r st'"
proof -
  obtain r1 s1 where r1: "request c si = (r1, s1)" by (cases "request c si")
  from request_steps[OF r1] show ?thesis
  proof
    assume a: "r1 = Inr () \<and> steps si [c] s1"
    with run r1 have "k () s1 = (r, st')" by (simp add: bnd_def)
    moreover from a steps_trans[OF sofar, of "[c]" s1] have "steps st (sofar @ [c]) s1" by simp
    ultimately show ?thesis by (rule cont[rotated])
  next
    assume a: "(\<exists>m. r1 = Inl (AdapterError m)) \<and> steps si [] s1"
    then obtain m where m: "r1 = Inl (AdapterError m)" by auto
    with run r1 have r: "r = Inl (AdapterError m)" "st' = s1" by (simp_all add: bnd_def)
    from a steps_trans[OF sofar, of "[]" s1] have "steps st sofar s1" by simp
    moreover from pre have "prefix sofar plan" by (rule append_prefixD)
    ultimately show ?thesis using r unfolding follows_def by (intro exI[of _ sofar]) simp
  qed
qed

lemma get_db_connection_cases:
  assumes "get_db_connection st = (r, st')"
  shows "(\<exists>m. r = Inl (StopException m) \<and> steps st [] st') \<or> (r = Inr () \<and> steps st [Open] st')"
proof (cases "secrets st")
  case SecretsLoaded
  obtain r1 s1 where r1: "request Open st = (r1, s1)" by (cases "request Open st")
  from request_steps[OF r1] r1 assms SecretsLoaded show ?thesis
    by (auto simp: get_db_connection_def)
next
  case SecretsWithoutKey
  with assms show ?thesis by (auto simp: get_db_connection_def steps_refl)
next
  case (SecretsUnreadable m)
  with assms show ?thesis by (auto simp: get_db_connection_def steps_refl)
qed

section \<open>The document drawn\<close>

lemma latin1_u [simp]: "latin1 (u s)"
proof -
  have "(of_char c :: nat) < 256" for c
  proof -
    have "(of_char c :: nat) mod 256 = of_char c" by simp
    then show ?thesis by (metis mod_less_divisor zero_less_numeral)
  qed
  then show ?thesis by (simp add: latin1_def u_def list_all_iff)
qed

lemma latin1_clean [simp]: "latin1 (clean t)"
  by (auto simp: latin1_def clean_def list_all_iff)

lemma latin1_append [simp]: "latin1 (a @ b) \<longleftrightarrow> latin1 a \<and> latin1 b"
  by (simp add: latin1_def)

lemma latin1_Nil [simp]: "latin1 []"
  by (simp add: latin1_def)

lemma char_of_u [simp]: "map char_of (u s) = s"
  by (simp add: u_def)

lemma pdf_cell_latin1 [simp]: "latin1 t \<Longrightarrow> pdf_cell fo w h t ops = Inr (ops @ [Cell w h (map char_of t)])"
  by (simp add: pdf_cell_def)

lemma pdf_multi_cell_latin1 [simp]: "latin1 t \<Longrightarrow> pdf_multi_cell fo w h t ops = Inr (ops @ [MultiCell w h (map char_of t)])"
  by (simp add: pdf_multi_cell_def)

lemma run_append: "run (fs @ gs) s = (case run fs s of Inl e \<Rightarrow> Inl e | Inr s' \<Rightarrow> run gs s')"
  by (induction fs arbitrary: s) (auto split: sum.splits)

lemma run_item_rows: "run (concat (map (item_row fo) items)) ops = Inr (ops @ concat (map (row_cells fo) items))"
proof (induction items arbitrary: ops)
  case Nil
  then show ?case by simp
next
  case (Cons i items)
  have "run (item_row fo i) ops = Inr (ops @ row_cells fo i)"
    by (simp add: item_row_def row_cells_def)
  then show ?case by (simp add: run_append Cons.IH)
qed

lemma create_pdf_eq:
  "create_pdf fo invoice_id customer_name date items tot =
     Inr (pdf_head invoice_id customer_name date @ concat (map (row_cells fo) items) @ pdf_foot fo tot)"
  unfolding create_pdf_def
  by (simp add: run_append run_item_rows pdf_emit_def pdf_head_def pdf_foot_def del: append_assoc)

lemma bnd_get_all_values:
  "bnd (get_all_values n) k =
     bnd (request (GetAllValues n))
       (\<lambda>_ s. k (all_values (sheet_of n s)) s)"
  by (auto simp: get_all_values_def bnd_def fun_eq_iff split: prod.splits sum.splits)

lemma bnd_get_all_records:
  "bnd (get_all_records fo n) k =
     bnd (request (GetAllRecords n))
       (\<lambda>_ s. case records_of fo (sheet_of n s) of Inl e \<Rightarrow> (Inl e, s) | Inr df \<Rightarrow> k df s)"
  by (auto simp: get_all_records_def bnd_def fun_eq_iff split: prod.splits sum.splits)

lemma records_of_Inl: "records_of fo sh = Inl e \<Longrightarrow> is_Exception e"
  by (auto simp: records_of_def Let_def split: list.splits if_splits)

lemma step_request':
  assumes "steps st sofar si"
    and "bnd (request c) k si = (r, st')"
    and "prefix (sofar @ [c]) plan"
    and "\<And>s1. steps st (sofar @ [c]) s1 \<Longrightarrow> k () s1 = (r, st') \<Longrightarrow> follows plan st r st'"
  shows "follows plan st r st'"
  using step_request[OF assms(2) assms(1) assms(3) assms(4)] .

lemma follows_after:
  assumes "steps st sofar si" and "follows p si r st'"
  shows "follows (sofar @ p) st r st'"
proof -
  from assms(2) obtain new where n: "steps si new st'" "prefix new p" "\<forall>x. r = Inr x \<longrightarrow> new = p"
    "\<forall>e. r = Inl e \<longrightarrow> is_Exception e" by (auto simp: follows_def)
  from steps_trans[OF assms(1) n(1)] n show ?thesis unfolding follows_def
    by (intro exI[of _ "sofar @ new"]) simp
qed

lemma follows_result: "follows p st (Inr x) st' \<Longrightarrow> follows p st (Inr y) st'"
  by (simp add: follows_def)

lemma follows_Inl: "follows p st (Inl e :: exn + 'a) st' \<Longrightarrow> follows p st (Inl e :: exn + 'b) st'"
  by (simp add: follows_def)

lemma tail_follows:
  assumes sofar: "steps st sofar si"
    and run: "bnd (for_each (commit_line fo inv_id df) cart)
                (\<lambda>_. bnd (lift (create_pdf fo inv_id cust ts cart tot)) (\<lambda>pdf_bytes. ret (inv_id, pdf_bytes))) si = (r, st')"
    and plan: "plan = sofar @ concat (map (line_calls fo inv_id df) cart)"
  shows "follows plan st r st'"
proof -
  obtain r1 s1 where r1: "for_each (commit_line fo inv_id df) cart si = (r1, s1)"
    by (cases "for_each (commit_line fo inv_id df) cart si")
  from for_each_follows[OF r1] have f: "follows (concat (map (line_calls fo inv_id df) cart)) si r1 s1" .
  show ?thesis
  proof (cases r1)
    case (Inl e)
    with run r1 have "r = Inl e" "st' = s1" by (simp_all add: bnd_def)
    with follows_after[OF sofar f] Inl plan show ?thesis by (auto intro: follows_Inl)
  next
    case (Inr x)
    with run r1 have "\<exists>y. r = Inr y" "st' = s1"
      by (auto simp: bnd_def lift_def ret_def create_pdf_eq)
    with follows_after[OF sofar f] Inr plan show ?thesis by (auto intro: follows_result)
  qed
qed

lemma records_tail_follows:
  assumes sofar: "steps st sofar si"
    and run: "(case rc of Inl e \<Rightarrow> (Inl e, si)
               | Inr df \<Rightarrow> bnd (for_each (commit_line fo inv_id df) cart)
                  (\<lambda>_. bnd (lift (create_pdf fo inv_id cust ts cart tot)) (\<lambda>pdf_bytes. ret (inv_id, pdf_bytes))) si)
              = (r, st')"
    and plan: "plan = sofar @ (case rc of Inl e \<Rightarrow> [] | Inr df \<Rightarrow> concat (map (line_calls fo inv_id df) cart))"
    and exc: "\<And>e. rc = Inl e \<Longrightarrow> is_Exception e"
  shows "follows plan st r st'"
proof (cases rc)
  case (Inl e)
  with run have "r = Inl e" "st' = si" by simp_all
  with sofar plan Inl exc[OF Inl] show ?thesis unfolding follows_def
    by (intro exI[of _ sofar]) simp
next
  case (Inr df)
  with run plan show ?thesis by (auto intro: tail_follows[OF sofar])
qed

lemma commit_follows:
  assumes run: "commit fo cust ts cart tot st = (r, st')"
  shows "(\<exists>m. r = Inl (StopException m) \<and> steps st [] st')
       \<or> follows (planned_calls fo cust ts cart tot st) st r st'"
proof -
  obtain r0 s0 where r0: "get_db_connection st = (r0, s0)" by (cases "get_db_connection st")
  from get_db_connection_cases[OF r0] show ?thesis
  proof
    assume "\<exists>m. r0 = Inl (StopException m) \<and> steps st [] s0"
    with run r0 show ?thesis by (auto simp: commit_def bnd_def)
  next
    assume a: "r0 = Inr () \<and> steps st [Open] s0"
    then have s0: "steps st [Open] s0" by simp
    from a run r0 have k: "bnd (request (Worksheet Invoices)) (\<lambda>_.
     bnd (worksheet Invoice_Items) (\<lambda>_.
     bnd (worksheet Inventory) (\<lambda>_.
     bnd (get_all_values Invoices) (\<lambda>vals.
     let inv_id = int (length vals) + 1000 in
     bnd (append_row Invoices [IntCell inv_id, TextCell cust, TextCell ts, FloatCell tot]) (\<lambda>_.
     bnd (get_all_records fo Inventory) (\<lambda>stock_df.
     bnd (for_each (commit_line fo inv_id stock_df) cart) (\<lambda>_.
     bnd (lift (create_pdf fo inv_id cust ts cart tot)) (\<lambda>pdf_bytes.
     ret (inv_id, pdf_bytes))))))))) s0 = (r, st')"
      by (simp add: commit_def bnd_def worksheet_def)
    have "follows (planned_calls fo cust ts cart tot st) st r st'"
      using s0 k
      apply -
      apply (erule step_request', assumption)
       apply (simp add: planned_calls_def Let_def)
      apply (simp add: worksheet_def)
      apply (erule step_request', assumption)
       apply (simp add: planned_calls_def Let_def)
      apply (erule step_request', assumption)
       apply (simp add: planned_calls_def Let_def)
      apply (simp add: bnd_get_all_values)
      apply (erule step_request', assumption)
       apply (simp add: planned_calls_def Let_def)
      apply (frule steps_sheet[where n=Invoices])
      apply (simp add: replay_def Let_def append_row_def next_invoice_id_def[symmetric])
      apply (erule step_request', assumption)
       apply (simp add: planned_calls_def Let_def)
      apply (simp add: bnd_get_all_records)
      apply (erule step_request', assumption)
       apply (simp add: planned_calls_def Let_def)
      apply (frule steps_sheet[where n=Inventory])
      apply (simp add: replay_def)
      apply (erule (1) records_tail_follows)
       apply (simp add: planned_calls_def Let_def)
      apply (erule records_of_Inl)
      done
    then show ?thesis ..
  qed
qed

lemma request_Inr_sheets:
  assumes "request c st = (Inr x, st')"
  shows "invoices st' = invoices (effect c st)" "inventory st' = inventory (effect c st)"
    "invoice_items st' = invoice_items (effect c st)"
  using request_Inr(2)[OF assms, of Invoices] request_Inr(2)[OF assms, of Inventory]
    request_Inr(2)[OF assms, of Invoice_Items] by simp_all

lemma get_db_connection_Inr:
  assumes "get_db_connection st = (Inr x, st')"
  shows "invoices st' = invoices st" "inventory st' = inventory st" "invoice_items st' = invoice_items st"
  using get_db_connection_cases[OF assms] steps_sheet[of st "[Open]" st' Invoices]
    steps_sheet[of st "[Open]" st' Inventory] steps_sheet[of st "[Open]" st' Invoice_Items]
  by (simp_all add: replay_def)

lemma commit_Inr:
  assumes "commit fo cust ts cart tot st = (Inr (inv_id, doc), st')"
  shows "inv_id = next_invoice_id (invoices st)" and "create_pdf fo inv_id cust ts cart tot = Inr doc"
  using assms unfolding commit_def worksheet_def append_row_def bnd_get_all_values bnd_get_all_records
    next_invoice_id_def
  by (auto elim!: bndE simp: Let_def lift_def ret_def split: sum.splits
      dest!: request_Inr_sheets(1) get_db_connection_Inr(1))

lemma commit_Inr_steps:
  assumes "commit fo cust ts cart tot st = (Inr x, st')"
  shows "steps st (planned_calls fo cust ts cart tot st) st'"
  using commit_follows[OF assms] by (auto simp: follows_def)


section \<open>The runs of the bill column\<close>



lemma replay_Cons: "replay (c # cs) st = replay cs (effect c st)"
  by (simp add: replay_def)

lemma replay_Nil: "replay [] st = st"
  by (simp add: replay_def)

lemma line_calls_cases:
  "line_calls fo inv_id df i = [] \<or>
   (\<exists>k n. line_calls fo inv_id df i =
      [UpdateCell Inventory (k + 2) 2 (IntCell (n - qty i)),
       AppendRow Invoice_Items [IntCell inv_id, TextCell (item i), IntCell (qty i), FloatCell (subtotal i)]])"
  by (auto simp: line_calls_def split: sum.splits)

lemma replay_lines_invoices:
  "invoices (replay (concat (map (line_calls fo inv_id df) cart)) st) = invoices st"
proof (induction cart arbitrary: st)
  case Nil
  then show ?case by (simp add: replay_Nil)
next
  case (Cons i cart)
  from line_calls_cases[of fo inv_id df i] show ?case
    by (auto simp: replay_append replay_Cons replay_Nil Cons.IH)
qed

lemma commit_Inr_invoices:
  assumes "commit fo cust ts cart tot st = (Inr (inv_id, doc), st')"
  shows "invoices st' = put_row [IntCell inv_id, TextCell cust, TextCell ts, FloatCell tot] (invoices st)"
proof -
  from steps_sheet[OF commit_Inr_steps[OF assms], of Invoices] commit_Inr(1)[OF assms] show ?thesis
    by (auto simp: planned_calls_def Let_def replay_Cons replay_append replay_lines_invoices replay_Nil
        split: sum.splits)
qed

section \<open>Values of a sheet and the row put after them\<close>

lemma rstrip_Nil_iff: "rstrip P xs = [] \<longleftrightarrow> (\<forall>x\<in>set xs. P x)"
  by (auto simp: rstrip_def dropWhile_eq_Nil_conv)








section \<open>The calls planned for a checkout\<close>








section \<open>A checkout without faults\<close>







section \<open>The example evaluated\<close>






lemma put_row_titled:
  "put_row row [[TextCell (a # as), b, c, d]] = [[TextCell (a # as), b, c, d], row]"
  by (simp add: rstrip_Nil_iff blank_def)





lemma clean_pointwise: "list_all2 (\<lambda>c d. d = (if c < 256 then c else 63)) t (clean t)"
  by (simp add: clean_def list_all2_conv_all_nth)




section \<open>The claims\<close>




text \<open>
  C2. The bill column, and with it the Confirm and Print button, is drawn only when the
  cart holds a line (line 215). With an empty cart there is no checkout to invoke: the
  run shows nothing, raises nothing, makes no call and leaves cart and store as they
  were. So nothing is committed, as the claim says, but no error of any kind is
  reported either.
\<close>

theorem checkout_of_empty_cart_does_nothing:
  "tab2_bill fo clicked cust ts [] st = (Idle, [], st)"
  by (simp add: tab2_bill_def)

theorem checkout_of_empty_cart_fails_counterexample:
  "\<not> failed (fst (tab2_bill whole_ops True walk_in noon [] store0))"
  by (simp add: tab2_bill_def)

text \<open>
  C9. \<open>create_pdf\<close> never raises: for every identifier, customer name, date, cart and
  total it returns the finished document. Every text that comes from outside (the
  company settings, the customer name, the date, the item names, the closing message)
  goes through \<open>clean\<close> first, which keeps a Latin-1 character and puts a question mark
  (code 63) for any other, so that its result is Latin-1 text the PDF library accepts.
\<close>

theorem create_pdf_never_raises:
  "create_pdf fo invoice_id customer_name date items tot =
     Inr (pdf_head invoice_id customer_name date @ concat (map (row_cells fo) items) @ pdf_foot fo tot)
   \<and> latin1 (clean t)
   \<and> list_all2 (\<lambda>c d. d = (if c < 256 then c else 63)) t (clean t)"
  by (simp add: create_pdf_eq clean_pointwise latin1_clean)



end
